theory Spec2Isabelle
  imports Complex_Main
begin

section \<open>Noise-floor estimation and amplitude jitter: the embedding\<close>

text \<open>
  The embedding follows \<^verbatim>\<open>src/__init__.py\<close>, class \<^verbatim>\<open>AudioPreprocessor\<close>.
  Samples and configuration values are Python/numpy floats; they are modelled as
  \<^typ>\<open>real\<close>, so arithmetic is exact: rounding error and overflow of IEEE doubles
  are outside the model. The one place where the source relies on the special values of
  IEEE arithmetic, the division in the transition factor, is modelled with an explicit
  type of quotients (\<open>npfloat\<close>) and with the sign of a zero divisor, which decides
  between \<open>+inf\<close> and \<open>-inf\<close>. Sample counts and the sample rate are Python integers,
  modelled as \<^typ>\<open>int\<close>. Every exception the source can raise is a value \<open>Inl e\<close> of
  the result.
\<close>

subsection \<open>Configuration and errors\<close>

text \<open>
  The fields set by \<^verbatim>\<open>__init__\<close> (lines 15-27). The double \<open>smooth_amp_frac\<close> is a
  factor of the divisor of line 68; when it is zero its real value has lost the sign of
  the zero, which \<open>smooth_amp_frac_negzero\<close> keeps: true for \<open>-0.0\<close>, false for \<open>+0.0\<close>
  and for the integer 0. The flag means nothing when \<open>smooth_amp_frac\<close> is not zero.
\<close>

record config =
  win_nfloor_s :: real
  win_skip_s :: real
  nfloor_max_frac :: real
  smooth_amp_frac :: real
  smooth_amp_frac_negzero :: bool
  amplitude_adjust_range :: "real \<times> real"

text \<open>The default options dictionary (lines 6-12).\<close>

definition defopts :: config where
  "defopts = \<lparr> win_nfloor_s = 0.05, win_skip_s = 0.02, nfloor_max_frac = 0.1,
               smooth_amp_frac = 0.1, smooth_amp_frac_negzero = False,
               amplitude_adjust_range = (0.8, 1.2) \<rparr>"

text \<open>
  The only exception the two core methods can raise is \<^verbatim>\<open>ValueError\<close>: from
  \<^verbatim>\<open>np.max\<close> on an empty array and from \<^verbatim>\<open>range\<close> with step 0.
\<close>

datatype error = ValueError

subsection \<open>Python and numpy primitives\<close>

text \<open>\<^verbatim>\<open>int(x)\<close> on a float: truncation toward zero.\<close>

definition py_int :: "real \<Rightarrow> int" where
  "py_int x = (if 0 \<le> x then \<lfloor>x\<rfloor> else \<lceil>x\<rceil>)"

text \<open>
  \<^verbatim>\<open>range(start, stop, step)\<close>: counting up while below \<open>stop\<close> for a positive step,
  counting down while above \<open>stop\<close> for a negative one, \<^verbatim>\<open>ValueError\<close> for step 0.
\<close>

function py_range_up :: "int \<Rightarrow> int \<Rightarrow> int \<Rightarrow> int list" where
  "py_range_up i stop step =
     (if 0 < step \<and> i < stop then i # py_range_up (i + step) stop step else [])"
  by pat_completeness auto
termination
  by (relation "measure (\<lambda>(i, stop, step). nat (stop - i))") auto

function py_range_down :: "int \<Rightarrow> int \<Rightarrow> int \<Rightarrow> int list" where
  "py_range_down i stop step =
     (if step < 0 \<and> stop < i then i # py_range_down (i + step) stop step else [])"
  by pat_completeness auto
termination
  by (relation "measure (\<lambda>(i, stop, step). nat (i - stop))") auto

declare py_range_up.simps [simp del] py_range_down.simps [simp del]

definition py_range :: "int \<Rightarrow> int \<Rightarrow> int \<Rightarrow> error + int list" where
  "py_range start stop step =
     (if step = 0 then Inl ValueError
      else if 0 < step then Inr (py_range_up start stop step)
      else Inr (py_range_down start stop step))"

text \<open>
  A slice \<^verbatim>\<open>xs[i:j]\<close>: a negative bound counts from the end, and both bounds are
  clipped to \<open>[0, len(xs)]\<close>; the slice is empty when the bounds cross.
\<close>

definition slice_index :: "nat \<Rightarrow> int \<Rightarrow> nat" where
  "slice_index n i = (if i < 0 then nat (max 0 (int n + i)) else nat (min (int n) i))"

definition py_slice :: "'a list \<Rightarrow> int \<Rightarrow> int \<Rightarrow> 'a list" where
  "py_slice xs i j =
     (let a = slice_index (length xs) i; b = slice_index (length xs) j
      in take (b - a) (drop a xs))"

text \<open>\<^verbatim>\<open>np.max(np.abs(xs))\<close>: \<^verbatim>\<open>ValueError\<close> on an empty array.\<close>

fun np_max_abs :: "real list \<Rightarrow> error + real" where
  "np_max_abs [] = Inl ValueError"
| "np_max_abs (x # xs) = Inr (fold max (map abs xs) \<bar>x\<bar>)"

text \<open>\<^verbatim>\<open>min(xs, default=d)\<close>.\<close>

fun py_min_default :: "real list \<Rightarrow> real \<Rightarrow> real" where
  "py_min_default [] d = d"
| "py_min_default (x # xs) d = fold min xs x"

text \<open>
  The quotient of two numpy doubles, \<open>a\<close> by \<open>b\<close>. A zero divisor raises nothing: numpy
  warns and returns NaN for \<open>0/0\<close> and otherwise an infinity, whose sign is that of \<open>a\<close>
  when the divisor is \<open>+0.0\<close> and the opposite one when it is \<open>-0.0\<close>. The argument
  \<open>b_negzero\<close> is the sign bit of the divisor, read only when \<open>b\<close> is zero.
\<close>

datatype npfloat = Finite real | PosInf | NegInf | NaN

definition np_divide :: "real \<Rightarrow> real \<Rightarrow> bool \<Rightarrow> npfloat" where
  "np_divide a b b_negzero =
     (if b \<noteq> 0 then Finite (a / b)
      else if a = 0 then NaN
      else if (a < 0) = b_negzero then PosInf
      else NegInf)"

text \<open>
  \<^verbatim>\<open>max(0, min(1, q))\<close> with Python's builtins: \<^verbatim>\<open>min(1, q)\<close> is \<open>q\<close> when
  \<open>q < 1\<close> and 1 otherwise (so 1 for \<open>+inf\<close> and for NaN, \<open>-inf\<close> for \<open>-inf\<close>), and
  \<^verbatim>\<open>max(0, m)\<close> is \<open>m\<close> when \<open>m > 0\<close> and 0 otherwise.
\<close>

fun clamp01 :: "npfloat \<Rightarrow> real" where
  "clamp01 (Finite q) = max 0 (min 1 q)"
| "clamp01 PosInf = 1"
| "clamp01 NegInf = 0"
| "clamp01 NaN = 1"

text \<open>
  \<^verbatim>\<open>random.uniform(a, b)\<close> is \<^verbatim>\<open>a + (b - a) * random()\<close>, where \<open>u\<close> is the value
  of \<^verbatim>\<open>random()\<close>, a float in \<open>[0, 1)\<close>.
\<close>

definition random_uniform :: "real \<times> real \<Rightarrow> real \<Rightarrow> real" where
  "random_uniform rng u = fst rng + (snd rng - fst rng) * u"

subsection \<open>\<^verbatim>\<open>calculate_noise_floor\<close> (lines 35-55)\<close>

definition window_size :: "config \<Rightarrow> int \<Rightarrow> int" where
  "window_size cfg sample_rate = py_int (win_nfloor_s cfg * of_int sample_rate)"

definition skip_size :: "config \<Rightarrow> int \<Rightarrow> int" where
  "skip_size cfg sample_rate = py_int (win_skip_s cfg * of_int sample_rate)"

text \<open>The offsets the loop of line 43 runs over.\<close>

definition window_offsets :: "config \<Rightarrow> real list \<Rightarrow> int \<Rightarrow> error + int list" where
  "window_offsets cfg data sample_rate =
     py_range 0 (int (length data) - window_size cfg sample_rate) (skip_size cfg sample_rate)"

text \<open>The stopping threshold of line 48, from the maxima accepted so far.\<close>

definition threshold :: "config \<Rightarrow> real \<Rightarrow> real list \<Rightarrow> real" where
  "threshold cfg max_amp nfloor_amplitudes =
     nfloor_max_frac cfg * (max_amp - py_min_default nfloor_amplitudes max_amp)"

text \<open>
  The loop body (lines 44-51) over the remaining offsets; \<open>nfloor_amplitudes\<close> is the
  list of accepted window maxima, and \<^verbatim>\<open>break\<close> returns it as it stands.
\<close>

fun scan_windows ::
  "config \<Rightarrow> real list \<Rightarrow> int \<Rightarrow> real \<Rightarrow> int list \<Rightarrow> real list \<Rightarrow> error + real list" where
  "scan_windows cfg data wsize max_amp [] nfloor_amplitudes = Inr nfloor_amplitudes"
| "scan_windows cfg data wsize max_amp (i # offs) nfloor_amplitudes =
     (case np_max_abs (py_slice data i (i + wsize)) of
        Inl e \<Rightarrow> Inl e
      | Inr window_max \<Rightarrow>
          if window_max > threshold cfg max_amp nfloor_amplitudes
          then Inr nfloor_amplitudes
          else scan_windows cfg data wsize max_amp offs (nfloor_amplitudes @ [window_max]))"

definition calculate_noise_floor :: "config \<Rightarrow> real list \<Rightarrow> int \<Rightarrow> error + real \<times> real" where
  "calculate_noise_floor cfg data sample_rate =
     (case np_max_abs data of
        Inl e \<Rightarrow> Inl e
      | Inr max_amp \<Rightarrow>
          (case window_offsets cfg data sample_rate of
             Inl e \<Rightarrow> Inl e
           | Inr offs \<Rightarrow>
               (case scan_windows cfg data (window_size cfg sample_rate) max_amp offs [] of
                  Inl e \<Rightarrow> Inl e
                | Inr nfloor_amplitudes \<Rightarrow>
                    Inr (case nfloor_amplitudes of [] \<Rightarrow> 0 | x # xs \<Rightarrow> fold min xs x,
                         max_amp))))"

subsection \<open>\<^verbatim>\<open>adjust_amplitude\<close> (lines 57-78)\<close>

text \<open>
  The sign bits of the two factors of the divisor of line 68. That of \<open>smooth_amp_frac\<close>
  is the sign of its value, or the flag of the configuration when the value is zero. That
  of \<open>max_amp - nfloor_amp\<close> is the sign of the difference when the two differ, and clear
  when they are equal: \<open>x - x\<close> is \<open>+0.0\<close>. A zero among \<open>max_amp\<close> and \<open>nfloor_amp\<close> is
  \<open>+0.0\<close>, as \<^verbatim>\<open>np.abs\<close> and line 54 produce it; only when both are zero would
  the signs of the zeros be seen, in the sign of their difference.
\<close>

definition frac_signbit :: "config \<Rightarrow> bool" where
  "frac_signbit cfg =
     (if smooth_amp_frac cfg = 0 then smooth_amp_frac_negzero cfg else smooth_amp_frac cfg < 0)"

definition diff_signbit :: "real \<Rightarrow> real \<Rightarrow> bool" where
  "diff_signbit max_amp nfloor_amp = (max_amp - nfloor_amp < 0)"

text \<open>
  The sign bit of the product \<open>smooth_amp_frac * (max_amp - nfloor_amp)\<close>: the exclusive
  or of the sign bits of its factors, also when the product is zero.
\<close>

definition divisor_signbit :: "config \<Rightarrow> real \<Rightarrow> real \<Rightarrow> bool" where
  "divisor_signbit cfg nfloor_amp max_amp =
     (frac_signbit cfg \<noteq> diff_signbit max_amp nfloor_amp)"

text \<open>The quotient of line 68, before it is clamped.\<close>

definition transition_quotient :: "config \<Rightarrow> real \<Rightarrow> real \<Rightarrow> real \<Rightarrow> npfloat" where
  "transition_quotient cfg abs_val nfloor_amp max_amp =
     np_divide (abs_val - nfloor_amp) (smooth_amp_frac cfg * (max_amp - nfloor_amp))
       (divisor_signbit cfg nfloor_amp max_amp)"

definition smooth_transition_factor :: "config \<Rightarrow> real \<Rightarrow> real \<Rightarrow> real \<Rightarrow> real" where
  "smooth_transition_factor cfg abs_val nfloor_amp max_amp =
     clamp01 (transition_quotient cfg abs_val nfloor_amp max_amp)"

definition amplitude_adjustment :: "real \<Rightarrow> real \<Rightarrow> real" where
  "amplitude_adjustment t random_adjust = (1 - t) + (t * random_adjust)"

text \<open>
  The loop of lines 61-76 over the samples in index order. The random source is the
  sequence \<open>rnd\<close> of values of \<^verbatim>\<open>random()\<close> and \<open>k\<close> the number of draws made so
  far; the result is the adjusted copy and the number of draws after the loop.
\<close>

fun adjust_loop ::
  "config \<Rightarrow> (nat \<Rightarrow> real) \<Rightarrow> real \<Rightarrow> real \<Rightarrow> real list \<Rightarrow> nat \<Rightarrow> real list \<times> nat" where
  "adjust_loop cfg rnd nfloor_amp max_amp [] k = ([], k)"
| "adjust_loop cfg rnd nfloor_amp max_amp (s # ss) k =
     (if \<bar>s\<bar> > nfloor_amp
      then
        (let t = smooth_transition_factor cfg \<bar>s\<bar> nfloor_amp max_amp;
             random_adjust = random_uniform (amplitude_adjust_range cfg) (rnd k);
             rest = adjust_loop cfg rnd nfloor_amp max_amp ss (Suc k)
         in (s * amplitude_adjustment t random_adjust # fst rest, snd rest))
      else
        (let rest = adjust_loop cfg rnd nfloor_amp max_amp ss k
         in (s # fst rest, snd rest)))"

definition adjust_amplitude ::
  "config \<Rightarrow> (nat \<Rightarrow> real) \<Rightarrow> real list \<Rightarrow> real \<Rightarrow> real \<Rightarrow> real list" where
  "adjust_amplitude cfg rnd data nfloor_amp max_amp =
     fst (adjust_loop cfg rnd nfloor_amp max_amp data 0)"

section \<open>Properties\<close>

subsection \<open>The primitives\<close>

lemma np_max_abs_Max: "xs \<noteq> [] \<Longrightarrow> np_max_abs xs = Inr (Max (abs ` set xs))"
proof (cases xs)
  case Nil
  then show "xs \<noteq> [] \<Longrightarrow> ?thesis" by simp
next
  case (Cons a list)
  have "Max (set (\<bar>a\<bar> # map abs list)) = fold max (map abs list) \<bar>a\<bar>"
    by (rule Max.set_eq_fold)
  then show ?thesis using Cons by simp
qed

lemma np_max_abs_replicate: "0 < n \<Longrightarrow> np_max_abs (replicate n a) = Inr \<bar>a\<bar>"
  by (simp add: np_max_abs_Max)

lemma np_max_abs_nonneg: "np_max_abs xs = Inr m \<Longrightarrow> 0 \<le> m"
proof (cases xs)
  case Nil
  then show "np_max_abs xs = Inr m \<Longrightarrow> ?thesis" by simp
next
  case (Cons a list)
  assume "np_max_abs xs = Inr m"
  then have "m = Max (abs ` set xs)"
    using Cons np_max_abs_Max[of xs] by simp
  moreover have "\<bar>a\<bar> \<le> Max (abs ` set xs)"
    using Cons by (intro Max_ge) auto
  ultimately show ?thesis by linarith
qed

lemma py_range_up_bounds:
  "i \<in> set (py_range_up a stop step) \<Longrightarrow> a \<le> i \<and> i < stop"
proof (induction a stop step rule: py_range_up.induct)
  case (1 a stop step)
  show ?case
  proof (cases "0 < step \<and> a < stop")
    case True
    then have "i = a \<or> i \<in> set (py_range_up (a + step) stop step)"
      using "1.prems" by (subst (asm) py_range_up.simps) simp
    then show ?thesis
      using True "1.IH" by auto
  next
    case False
    then show ?thesis
      using "1.prems" by (subst (asm) py_range_up.simps) simp
  qed
qed

lemma py_range_up_mem:
  "0 < step \<Longrightarrow> a \<le> i \<Longrightarrow> i < stop \<Longrightarrow> step dvd (i - a) \<Longrightarrow> i \<in> set (py_range_up a stop step)"
proof (induction a stop step rule: py_range_up.induct)
  case (1 a stop step)
  show ?case
  proof (cases "i = a")
    case True
    then show ?thesis using "1.prems" by (subst py_range_up.simps) simp
  next
    case False
    obtain k where k: "i - a = step * k" using "1.prems"(4) by (auto simp: dvd_def)
    have "0 < step * k" using False "1.prems"(2) k by linarith
    then have "1 \<le> k" using "1.prems"(1) by (simp add: zero_less_mult_iff)
    then have "step \<le> step * k" using "1.prems"(1) by simp
    then have le: "a + step \<le> i" using k by linarith
    have "i - (a + step) = step * (k - 1)" using k by (simp add: algebra_simps)
    then have dv: "step dvd (i - (a + step))" by simp
    have a: "0 < step \<and> a < stop" using "1.prems" by linarith
    have "i \<in> set (py_range_up (a + step) stop step)"
      using "1.IH"[OF a "1.prems"(1) le "1.prems"(3) dv] .
    then show ?thesis using a by (subst py_range_up.simps) simp
  qed
qed

lemma py_slice_window:
  assumes "0 \<le> i" "0 < w" "i + w \<le> int (length xs)"
  shows "py_slice xs i (i + w) = take (nat w) (drop (nat i) xs)"
    and "py_slice xs i (i + w) \<noteq> []"
proof -
  have a: "slice_index (length xs) i = nat i"
    using assms by (simp add: slice_index_def min_def)
  have b: "slice_index (length xs) (i + w) = nat (i + w)"
    using assms by (simp add: slice_index_def min_def)
  have c: "nat (i + w) - nat i = nat w" using assms by linarith
  show "py_slice xs i (i + w) = take (nat w) (drop (nat i) xs)"
    by (simp add: py_slice_def a b c)
  then show "py_slice xs i (i + w) \<noteq> []"
    using assms by auto
qed

text \<open>
  For a positive skip, the offsets of line 43 are the multiples of \<open>skip_size\<close> with
  \<open>offset + window_size < len(data)\<close>, the inequality strict.
\<close>

lemma window_offsets_examined:
  assumes "0 < skip_size cfg sample_rate"
  shows "\<exists>offs. window_offsets cfg data sample_rate = Inr offs
           \<and> set offs = {i. 0 \<le> i \<and> i + window_size cfg sample_rate < int (length data)
                            \<and> skip_size cfg sample_rate dvd i}"
proof -
  let ?stop = "int (length data) - window_size cfg sample_rate"
  let ?offs = "py_range_up 0 ?stop (skip_size cfg sample_rate)"
  have o: "window_offsets cfg data sample_rate = Inr ?offs"
    using assms by (simp add: window_offsets_def py_range_def)
  have "set ?offs = {i. 0 \<le> i \<and> i < ?stop \<and> skip_size cfg sample_rate dvd i}"
  proof (intro set_eqI iffI)
    fix i assume "i \<in> set ?offs"
    then have b: "0 \<le> i \<and> i < ?stop" by (rule py_range_up_bounds)
    have "\<And>a stop. i \<in> set (py_range_up a stop (skip_size cfg sample_rate))
            \<Longrightarrow> skip_size cfg sample_rate dvd (i - a)"
    proof -
      fix a stop
      show "i \<in> set (py_range_up a stop (skip_size cfg sample_rate))
            \<Longrightarrow> skip_size cfg sample_rate dvd (i - a)"
      proof (induction a stop "skip_size cfg sample_rate" rule: py_range_up.induct)
        case (1 a stop)
        have c: "0 < skip_size cfg sample_rate \<and> a < stop"
          using "1.prems" by (subst (asm) py_range_up.simps) (simp split: if_splits)
        then have "i = a \<or> i \<in> set (py_range_up (a + skip_size cfg sample_rate) stop (skip_size cfg sample_rate))"
          using "1.prems" by (subst (asm) py_range_up.simps) simp
        then show ?case
        proof
          assume "i = a" then show ?thesis by simp
        next
          assume "i \<in> set (py_range_up (a + skip_size cfg sample_rate) stop (skip_size cfg sample_rate))"
          then have "skip_size cfg sample_rate dvd (i - (a + skip_size cfg sample_rate))"
            using "1.hyps" c by simp
          then have "skip_size cfg sample_rate dvd (i - (a + skip_size cfg sample_rate)) + skip_size cfg sample_rate"
            by (rule dvd_add) simp
          then show ?thesis by (simp add: algebra_simps)
        qed
      qed
    qed
    from this[of 0 ?stop] \<open>i \<in> set ?offs\<close> have "skip_size cfg sample_rate dvd i" by simp
    then show "i \<in> {i. 0 \<le> i \<and> i < ?stop \<and> skip_size cfg sample_rate dvd i}"
      using b by simp
  next
    fix i assume "i \<in> {i. 0 \<le> i \<and> i < ?stop \<and> skip_size cfg sample_rate dvd i}"
    then show "i \<in> set ?offs"
      using assms py_range_up_mem[of "skip_size cfg sample_rate" 0 i ?stop] by simp
  qed
  then have "set ?offs = {i. 0 \<le> i \<and> i + window_size cfg sample_rate < int (length data)
                            \<and> skip_size cfg sample_rate dvd i}"
    by (auto simp: algebra_simps)
  then show ?thesis using o by blast
qed

subsection \<open>The scan: the floor it finds is always 0, and it returns on valid input\<close>

lemma fold_min_Min: "fold min xs (x::real) = Min (set (x # xs))"
  by (simp only: Min.set_eq_fold)

lemma py_min_default_Min:
  "py_min_default acc d = (if acc = [] then d else Min (set acc))"
proof (cases acc)
  case Nil
  then show ?thesis by simp
next
  case (Cons x xs)
  then show ?thesis by (simp only: py_min_default.simps fold_min_Min) simp
qed

lemma threshold_Nil: "threshold cfg max_amp [] = 0"
  by (simp add: threshold_def)

lemma scan_windows_floor_zero:
  "scan_windows cfg data w max_amp offs acc = Inr acc' \<Longrightarrow>
   acc = [] \<or> (Min (set acc) = 0) \<Longrightarrow>
   acc' = [] \<or> (Min (set acc') = 0)"
proof (induction offs arbitrary: acc)
  case Nil
  then show ?case by simp
next
  case (Cons i offs)
  show ?case
  proof (cases "np_max_abs (py_slice data i (i + w))")
    case (Inl e)
    then show ?thesis using Cons.prems by simp
  next
    case (Inr window_max)
    have nonneg: "0 \<le> window_max" using Inr by (rule np_max_abs_nonneg)
    show ?thesis
    proof (cases "window_max > threshold cfg max_amp acc")
      case True
      then show ?thesis using Cons.prems Inr by simp
    next
      case False
      then have rec: "scan_windows cfg data w max_amp offs (acc @ [window_max]) = Inr acc'"
        using Cons.prems Inr by simp
      have "Min (set (acc @ [window_max])) = 0"
      proof (cases "acc = []")
        case True
        then have "window_max \<le> 0" using False by (simp add: threshold_Nil)
        then show ?thesis using True nonneg by simp
      next
        case F: False
        then have "Min (set acc) = 0" using Cons.prems(2) by simp
        moreover have "Min (set (acc @ [window_max])) = min window_max (Min (set acc))"
          using F by simp
        ultimately show ?thesis using nonneg by simp
      qed
      then show ?thesis using Cons.IH[OF rec] by simp
    qed
  qed
qed

lemma scan_windows_total:
  "0 < w \<Longrightarrow> (\<And>i. i \<in> set offs \<Longrightarrow> 0 \<le> i \<and> i + w \<le> int (length data)) \<Longrightarrow>
   \<exists>acc'. scan_windows cfg data w max_amp offs acc = Inr acc'"
proof (induction offs arbitrary: acc)
  case Nil
  then show ?case by simp
next
  case (Cons i offs)
  have i: "0 \<le> i" "i + w \<le> int (length data)" using Cons.prems(2)[of i] by simp_all
  have "py_slice data i (i + w) \<noteq> []" using i Cons.prems(1) by (intro py_slice_window(2))
  then obtain window_max where wm: "np_max_abs (py_slice data i (i + w)) = Inr window_max"
    by (auto simp: np_max_abs_Max)
  have "\<exists>acc'. scan_windows cfg data w max_amp offs (acc @ [window_max]) = Inr acc'"
    using Cons.prems by (intro Cons.IH) auto
  then show ?case using wm by auto
qed

lemma calculate_noise_floor_floor_zero:
  assumes "calculate_noise_floor cfg data sample_rate = Inr (nfloor_amp, max_amp)"
  shows "nfloor_amp = 0" and "np_max_abs data = Inr max_amp"
proof -
  from assms obtain offs acc where
    m: "np_max_abs data = Inr max_amp" and
    s: "scan_windows cfg data (window_size cfg sample_rate) max_amp offs [] = Inr acc" and
    n: "nfloor_amp = (case acc of [] \<Rightarrow> 0 | x # xs \<Rightarrow> fold min xs x)"
    by (auto simp: calculate_noise_floor_def split: sum.splits)
  show "np_max_abs data = Inr max_amp" by (rule m)
  have "acc = [] \<or> Min (set acc) = 0"
    using scan_windows_floor_zero[OF s] by simp
  then show "nfloor_amp = 0"
    using n by (cases acc) (simp_all only: list.case fold_min_Min, simp_all)
qed

lemma calculate_noise_floor_total:
  assumes "data \<noteq> []" "0 < window_size cfg sample_rate" "0 < skip_size cfg sample_rate"
  shows "\<exists>max_amp. calculate_noise_floor cfg data sample_rate = Inr (0, max_amp)
           \<and> np_max_abs data = Inr max_amp"
proof -
  obtain max_amp where m: "np_max_abs data = Inr max_amp"
    using assms(1) by (auto simp: np_max_abs_Max)
  let ?offs = "py_range_up 0 (int (length data) - window_size cfg sample_rate) (skip_size cfg sample_rate)"
  have o: "window_offsets cfg data sample_rate = Inr ?offs"
    using assms(3) by (simp add: window_offsets_def py_range_def)
  have "\<And>i. i \<in> set ?offs \<Longrightarrow> 0 \<le> i \<and> i + window_size cfg sample_rate \<le> int (length data)"
    using py_range_up_bounds by fastforce
  then obtain acc where
    s: "scan_windows cfg data (window_size cfg sample_rate) max_amp ?offs [] = Inr acc"
    using scan_windows_total[OF assms(2), of ?offs data cfg max_amp "[]"] by blast
  then obtain nf where c: "calculate_noise_floor cfg data sample_rate = Inr (nf, max_amp)"
    using m o by (simp add: calculate_noise_floor_def)
  then have "nf = 0" by (rule calculate_noise_floor_floor_zero(1))
  then show ?thesis using c m by simp
qed

subsection \<open>Truncation and rounding\<close>

lemma py_int_nonneg: "0 \<le> x \<Longrightarrow> py_int x = \<lfloor>x\<rfloor>"
  by (simp add: py_int_def)

lemma floor_round_cases:
  fixes x :: real
  shows "frac x < 1/2 \<Longrightarrow> round x = \<lfloor>x\<rfloor>"
    and "1/2 \<le> frac x \<Longrightarrow> round x = \<lfloor>x\<rfloor> + 1"
proof -
  have lo: "of_int \<lfloor>x\<rfloor> \<le> x" and hi: "x < of_int \<lfloor>x\<rfloor> + 1"
    by linarith+
  show "round x = \<lfloor>x\<rfloor>" if "frac x < 1/2"
  proof -
    have "x - of_int \<lfloor>x\<rfloor> < 1/2" using that by (simp add: frac_def)
    then have "of_int \<lfloor>x\<rfloor> \<le> x + 1/2" "x + 1/2 < of_int \<lfloor>x\<rfloor> + 1"
      using lo by linarith+
    then show ?thesis unfolding round_def by (rule floor_unique)
  qed
  show "round x = \<lfloor>x\<rfloor> + 1" if "1/2 \<le> frac x"
  proof -
    have "1/2 \<le> x - of_int \<lfloor>x\<rfloor>" using that by (simp add: frac_def)
    then have "of_int (\<lfloor>x\<rfloor> + 1) \<le> x + 1/2" "x + 1/2 < of_int (\<lfloor>x\<rfloor> + 1) + 1"
      using hi by (simp_all, linarith)
    then show ?thesis unfolding round_def by (rule floor_unique)
  qed
qed

subsection \<open>The transition factor, the gain and the random draw\<close>

lemma clamp01_range: "0 \<le> clamp01 q \<and> clamp01 q \<le> 1"
  by (cases q) simp_all

lemma smooth_transition_factor_range:
  "0 \<le> smooth_transition_factor cfg a nf mx" "smooth_transition_factor cfg a nf mx \<le> 1"
  using clamp01_range by (simp_all add: smooth_transition_factor_def)

lemma amplitude_adjustment_bounds:
  assumes "0 \<le> t" "t \<le> 1" "lo \<le> r" "r \<le> hi"
  shows "min 1 lo \<le> amplitude_adjustment t r" "amplitude_adjustment t r \<le> max 1 hi"
proof -
  have e: "amplitude_adjustment t r = 1 + t * (r - 1)"
    by (simp add: amplitude_adjustment_def algebra_simps)
  show "min 1 lo \<le> amplitude_adjustment t r"
  proof (cases "1 \<le> r")
    case True
    then have "0 \<le> t * (r - 1)" using assms(1) by simp
    then show ?thesis using e by (simp add: min_def)
  next
    case False
    then have "t * (1 - r) \<le> 1 * (1 - r)" using assms(2) by (intro mult_right_mono) simp_all
    then have "r \<le> amplitude_adjustment t r" using e by (simp add: algebra_simps)
    then show ?thesis using assms(3) by (simp add: min_def)
  qed
  show "amplitude_adjustment t r \<le> max 1 hi"
  proof (cases "r \<le> 1")
    case True
    then have "t * (r - 1) \<le> 0" using assms(1) by (simp add: mult_nonneg_nonpos)
    then show ?thesis using e by (simp add: max_def)
  next
    case False
    then have "t * (r - 1) \<le> 1 * (r - 1)" using assms(2) by (intro mult_right_mono) simp_all
    then have "amplitude_adjustment t r \<le> r" using e by (simp add: algebra_simps)
    then show ?thesis using assms(4) by (simp add: max_def)
  qed
qed

lemma random_uniform_range:
  assumes "fst rng \<le> snd rng" "0 \<le> u" "u \<le> 1"
  shows "fst rng \<le> random_uniform rng u" "random_uniform rng u \<le> snd rng"
proof -
  have d: "0 \<le> snd rng - fst rng" using assms(1) by simp
  show "fst rng \<le> random_uniform rng u"
    using d assms(2) by (simp add: random_uniform_def)
  have "(snd rng - fst rng) * u \<le> (snd rng - fst rng) * 1"
    using d assms(3) by (intro mult_left_mono) simp_all
  then show "random_uniform rng u \<le> snd rng"
    by (simp add: random_uniform_def)
qed

subsection \<open>The sample loop\<close>

lemma adjust_loop_length:
  "length (fst (adjust_loop cfg rnd nf mx xs k)) = length xs"
  by (induction xs arbitrary: k) (simp_all add: Let_def)

lemma adjust_loop_below_floor:
  "i < length xs \<Longrightarrow> \<bar>xs ! i\<bar> \<le> nf \<Longrightarrow> fst (adjust_loop cfg rnd nf mx xs k) ! i = xs ! i"
proof (induction xs arbitrary: i k)
  case Nil
  then show ?case by simp
next
  case (Cons s ss)
  show ?case
  proof (cases i)
    case 0
    then show ?thesis using Cons.prems by (simp add: Let_def)
  next
    case (Suc j)
    then have "j < length ss" "\<bar>ss ! j\<bar> \<le> nf" using Cons.prems by simp_all
    then have "\<And>k. fst (adjust_loop cfg rnd nf mx ss k) ! j = ss ! j" by (rule Cons.IH)
    then show ?thesis using Suc by (simp add: Let_def)
  qed
qed

lemma adjust_loop_none_qualifies:
  "\<forall>s \<in> set xs. \<bar>s\<bar> \<le> nf \<Longrightarrow> adjust_loop cfg rnd nf mx xs k = (xs, k)"
  by (induction xs arbitrary: k) (simp_all add: Let_def)

text \<open>
  The draws made over a stretch of samples are as many as the samples that qualify, so
  the output at an index is decided by the sample there and by the number of qualifying
  samples before it.
\<close>

lemma adjust_loop_draws:
  "snd (adjust_loop cfg rnd nf mx xs k) = k + length (filter (\<lambda>x. \<bar>x\<bar> > nf) xs)"
  by (induction xs arbitrary: k) (simp_all add: Let_def)

lemma adjust_loop_append:
  "fst (adjust_loop cfg rnd nf mx (xs @ ys) k) =
     fst (adjust_loop cfg rnd nf mx xs k)
     @ fst (adjust_loop cfg rnd nf mx ys (k + length (filter (\<lambda>x. \<bar>x\<bar> > nf) xs)))"
  by (induction xs arbitrary: k) (simp_all add: Let_def)

lemma adjust_amplitude_at:
  "adjust_amplitude cfg rnd (pre @ s # post) nf mx ! length pre =
     (if \<bar>s\<bar> > nf
      then s * amplitude_adjustment (smooth_transition_factor cfg \<bar>s\<bar> nf mx)
             (random_uniform (amplitude_adjust_range cfg)
                (rnd (length (filter (\<lambda>x. \<bar>x\<bar> > nf) pre))))
      else s)"
proof -
  have "length (fst (adjust_loop cfg rnd nf mx pre 0)) = length pre"
    by (rule adjust_loop_length)
  then have "adjust_amplitude cfg rnd (pre @ s # post) nf mx ! length pre =
      hd (fst (adjust_loop cfg rnd nf mx (s # post) (length (filter (\<lambda>x. \<bar>x\<bar> > nf) pre))))"
    by (simp add: adjust_amplitude_def adjust_loop_append nth_append Let_def)
  then show ?thesis by (simp add: Let_def)
qed

subsection \<open>The concrete scenario\<close>

text \<open>
  Claim C1. The signal has 1000 samples at 1000 Hz, the first 200 of amplitude 0.01 and
  the other 800 of amplitude 0.9, and the configuration is the default one. The claim
  expects \<open>max_amp = 0.9\<close> and a noise floor of about 0.01, found after several quiet
  windows were accepted. The code returns \<open>max_amp = 0.9\<close> but a noise floor of 0:
  with nothing accepted yet, line 48 takes \<open>min(nfloor_amplitudes, default=max_amp)\<close>,
  so the threshold is \<open>0.1 * (0.9 - 0.9) = 0\<close>, the first window's maximum 0.01 exceeds
  it, and the loop breaks with an empty list.
\<close>

theorem C1_scenario_floor_is_zero:
  "calculate_noise_floor defopts (replicate 200 0.01 @ replicate 800 0.9) 1000 = Inr (0, 0.9)"
proof -
  have "calculate_noise_floor defopts (replicate 200 (1 / 100) @ replicate 800 (9 / 10)) 1000
        = Inr (0, 9 / 10)"
    apply (simp add: calculate_noise_floor_def window_offsets_def window_size_def
        skip_size_def defopts_def py_int_def py_range_def np_max_abs_Max
        py_range_up.simps[of 0])
    apply (simp add: py_slice_def slice_index_def np_max_abs_replicate threshold_def)
    done
  then show ?thesis by simp
qed

subsection \<open>The threshold before any window is accepted\<close>

text \<open>
  Claim C2. With no window accepted yet, the stopping threshold is claimed to be
  \<open>nfloor_max_frac * max_amp\<close>, so that the scan stops on the first window exactly when
  that window's maximum exceeds \<open>nfloor_max_frac * max_amp\<close>. In the code the default of
  the minimum is \<open>max_amp\<close> itself, so the threshold is
  \<open>nfloor_max_frac * (max_amp - max_amp) = 0\<close>. For 100 samples of amplitude 0.05
  followed by 900 of amplitude 1 at 1000 Hz, the first window's maximum 0.05 does not
  exceed \<open>0.1 * 1\<close>, yet the scan stops there and the floor returned is 0.
\<close>

theorem C2_empty_threshold_is_zero:
  "threshold defopts 1 [] = 0
   \<and> np_max_abs (py_slice (replicate 100 0.05 @ replicate 900 1) 0 (0 + window_size defopts 1000))
       = Inr 0.05
   \<and> 0.05 \<le> nfloor_max_frac defopts * 1
   \<and> calculate_noise_floor defopts (replicate 100 0.05 @ replicate 900 1) 1000 = Inr (0, 1)"
proof -
  have w: "window_size defopts 1000 = 50" "skip_size defopts 1000 = 20"
    by (simp_all add: window_size_def skip_size_def defopts_def py_int_def)
  have s: "np_max_abs (py_slice (replicate 100 (1 / 20) @ replicate 900 1) 0 50) = Inr (1 / 20)"
    by (simp add: py_slice_def slice_index_def np_max_abs_replicate)
  have m: "np_max_abs (replicate 100 (1 / 20) @ replicate 900 1) = Inr 1"
    by (simp add: np_max_abs_Max)
  have "calculate_noise_floor defopts (replicate 100 (1 / 20) @ replicate 900 1) 1000 = Inr (0, 1)"
    by (simp add: calculate_noise_floor_def window_offsets_def w m py_range_def
        py_range_up.simps[of 0] s threshold_Nil)
  then show ?thesis using s
    by (simp add: threshold_Nil w) (simp add: defopts_def)
qed

subsection \<open>Signals shorter than one window\<close>

text \<open>
  Claim C4 says that a signal with fewer than \<open>window_size\<close> samples makes the estimator
  fail with an \<open>InsufficientSamples\<close> error. The code has no such check: for one sample
  at 1000 Hz (window of 50 samples) it returns normally.
\<close>

theorem C4_counterexample:
  "int (length [0.5::real]) < window_size defopts 1000
   \<and> calculate_noise_floor defopts [0.5] 1000 = Inr (0, 0.5)"
  by (simp add: calculate_noise_floor_def window_offsets_def window_size_def skip_size_def
      defopts_def py_int_def py_range_def py_range_up.simps[of 0])

text \<open>
  Claim C4, as the code has it: for a non-empty signal with fewer than \<open>window_size\<close>
  samples and a positive \<open>skip_size\<close>, no error is raised; the range of line 43 is empty,
  no window is examined, and the result is \<open>(0, max_amp)\<close>.
\<close>

theorem C4_short_signal_returns:
  assumes "data \<noteq> []" "0 < skip_size cfg sample_rate"
    and "int (length data) < window_size cfg sample_rate"
  shows "\<exists>max_amp. np_max_abs data = Inr max_amp
           \<and> window_offsets cfg data sample_rate = Inr []
           \<and> calculate_noise_floor cfg data sample_rate = Inr (0, max_amp)"
proof -
  obtain max_amp where m: "np_max_abs data = Inr max_amp"
    using assms(1) by (auto simp: np_max_abs_Max)
  have o: "window_offsets cfg data sample_rate = Inr []"
    using assms(2,3) by (simp add: window_offsets_def py_range_def py_range_up.simps)
  show ?thesis using m o by (simp add: calculate_noise_floor_def)
qed

text \<open>The hypotheses of the theorem for C4 hold for one sample at 1000 Hz.\<close>

theorem C4_short_signal_returns_witness:
  "[0.5::real] \<noteq> [] \<and> 0 < skip_size defopts 1000
   \<and> int (length [0.5::real]) < window_size defopts 1000
   \<and> (\<exists>max_amp. np_max_abs [0.5] = Inr max_amp
           \<and> window_offsets defopts [0.5] 1000 = Inr []
           \<and> calculate_noise_floor defopts [0.5] 1000 = Inr (0, max_amp))"
proof -
  have h: "[0.5::real] \<noteq> []" "0 < skip_size defopts 1000"
    "int (length [0.5::real]) < window_size defopts 1000"
    by (simp_all add: window_size_def skip_size_def defopts_def py_int_def)
  show ?thesis using h C4_short_signal_returns[OF h] by simp
qed

subsection \<open>The offsets examined\<close>

text \<open>
  Claim C5 says that the scan covers every offset with
  \<open>offset + window_size \<le> len(signal)\<close>, the one where the sum equals the length
  included. The range of line 43 stops before \<open>len(data) - window_size\<close>, so the last
  full window is left out: for 70 samples at 1000 Hz (window 50, skip 20) the offsets 0
  and 20 both fit, and only offset 0 is examined.
\<close>

theorem C5_last_window_not_examined:
  "window_offsets defopts (replicate 70 0) 1000 = Inr [0]
   \<and> 20 + window_size defopts 1000 = int (length (replicate 70 (0::real)))
   \<and> scan_windows defopts (replicate 70 0) (window_size defopts 1000) 0 [0] [] = Inr [0]"
proof -
  have w: "window_size defopts 1000 = 50" "skip_size defopts 1000 = 20"
    by (simp_all add: window_size_def skip_size_def defopts_def py_int_def)
  have o: "window_offsets defopts (replicate 70 0) 1000 = Inr [0]"
    by (simp add: window_offsets_def w py_range_def py_range_up.simps[of 0]
        py_range_up.simps[of 20])
  have s: "np_max_abs (py_slice (replicate 70 0) 0 50) = Inr 0"
    by (simp add: py_slice_def slice_index_def np_max_abs_replicate)
  show ?thesis using o s by (simp add: w threshold_Nil)
qed

subsection \<open>The floor lies between 0 and the maximum\<close>

text \<open>
  Claim C8. For every non-empty signal and positive window and skip sizes, the estimator
  returns a result \<open>(noise_floor_amp, max_amp)\<close> with
  \<open>0 \<le> noise_floor_amp \<le> max_amp\<close>.
\<close>

theorem C8_floor_between_zero_and_max:
  assumes "data \<noteq> []" "0 < window_size cfg sample_rate" "0 < skip_size cfg sample_rate"
  shows "\<exists>nfloor_amp max_amp.
           calculate_noise_floor cfg data sample_rate = Inr (nfloor_amp, max_amp)
           \<and> 0 \<le> nfloor_amp \<and> nfloor_amp \<le> max_amp"
proof -
  obtain max_amp where
    c: "calculate_noise_floor cfg data sample_rate = Inr (0, max_amp)" and
    m: "np_max_abs data = Inr max_amp"
    using calculate_noise_floor_total[OF assms] by blast
  have "0 \<le> max_amp" using m by (rule np_max_abs_nonneg)
  then show ?thesis using c by auto
qed

text \<open>The hypotheses of the theorem for C8 hold for 200 samples at 1000 Hz.\<close>

theorem C8_floor_between_zero_and_max_witness:
  "replicate 100 0 @ replicate 100 (1::real) \<noteq> []
   \<and> 0 < window_size defopts 1000 \<and> 0 < skip_size defopts 1000
   \<and> (\<exists>nfloor_amp max_amp.
         calculate_noise_floor defopts (replicate 100 0 @ replicate 100 1) 1000
           = Inr (nfloor_amp, max_amp)
         \<and> 0 \<le> nfloor_amp \<and> nfloor_amp \<le> max_amp)"
proof -
  have h: "replicate 100 0 @ replicate 100 (1::real) \<noteq> []"
    "0 < window_size defopts 1000" "0 < skip_size defopts 1000"
    by (simp_all add: window_size_def skip_size_def defopts_def py_int_def)
  show ?thesis using h C8_floor_between_zero_and_max[OF h] by simp
qed

subsection \<open>Window and skip sizes\<close>

text \<open>
  Claim C6 says that the sizes are \<open>round(seconds * sample_rate)\<close>, rounding to the
  nearest integer rather than truncating. Lines 37-38 apply \<^verbatim>\<open>int\<close>, which truncates:
  at 95 Hz the default configuration gives a window of \<open>int(4.75) = 4\<close> samples and a
  skip of \<open>int(1.9) = 1\<close>, where rounding gives 5 and 2.
\<close>

theorem C6_counterexample:
  "window_size defopts 95 = 4 \<and> round (win_nfloor_s defopts * of_int 95) = 5
   \<and> skip_size defopts 95 = 1 \<and> round (win_skip_s defopts * of_int 95) = 2"
  by (simp add: window_size_def skip_size_def defopts_def py_int_def round_def)

text \<open>
  Claim C6, as the code has it: for non-negative durations and sample rate,
  \<open>window_size\<close> and \<open>skip_size\<close> are the products \<open>seconds * sample_rate\<close> truncated,
  that is their floor. The size equals the rounded product when the fractional part of
  the product is below 1/2, and is one less than it otherwise (\<open>round\<close> rounds a half
  up).
\<close>

theorem C6_sizes_truncate:
  assumes "0 \<le> win_nfloor_s cfg" "0 \<le> win_skip_s cfg" "0 \<le> sample_rate"
  shows "window_size cfg sample_rate = \<lfloor>win_nfloor_s cfg * of_int sample_rate\<rfloor>
       \<and> skip_size cfg sample_rate = \<lfloor>win_skip_s cfg * of_int sample_rate\<rfloor>
       \<and> window_size cfg sample_rate =
           (if frac (win_nfloor_s cfg * of_int sample_rate) < 1/2
            then round (win_nfloor_s cfg * of_int sample_rate)
            else round (win_nfloor_s cfg * of_int sample_rate) - 1)
       \<and> skip_size cfg sample_rate =
           (if frac (win_skip_s cfg * of_int sample_rate) < 1/2
            then round (win_skip_s cfg * of_int sample_rate)
            else round (win_skip_s cfg * of_int sample_rate) - 1)"
proof -
  have a: "0 \<le> win_nfloor_s cfg * of_int sample_rate" using assms by simp
  have b: "0 \<le> win_skip_s cfg * of_int sample_rate" using assms by simp
  have w: "window_size cfg sample_rate = \<lfloor>win_nfloor_s cfg * of_int sample_rate\<rfloor>"
    using a by (simp add: window_size_def py_int_nonneg)
  have s: "skip_size cfg sample_rate = \<lfloor>win_skip_s cfg * of_int sample_rate\<rfloor>"
    using b by (simp add: skip_size_def py_int_nonneg)
  have w': "window_size cfg sample_rate =
           (if frac (win_nfloor_s cfg * of_int sample_rate) < 1/2
            then round (win_nfloor_s cfg * of_int sample_rate)
            else round (win_nfloor_s cfg * of_int sample_rate) - 1)"
    using floor_round_cases[of "win_nfloor_s cfg * of_int sample_rate"] w by auto
  have s': "skip_size cfg sample_rate =
           (if frac (win_skip_s cfg * of_int sample_rate) < 1/2
            then round (win_skip_s cfg * of_int sample_rate)
            else round (win_skip_s cfg * of_int sample_rate) - 1)"
    using floor_round_cases[of "win_skip_s cfg * of_int sample_rate"] s by auto
  show ?thesis using w s w' s' by blast
qed

text \<open>The hypotheses of the theorem for C6 hold for the default configuration at 95 Hz.\<close>

theorem C6_sizes_truncate_witness:
  "0 \<le> win_nfloor_s defopts \<and> 0 \<le> win_skip_s defopts \<and> (0::int) \<le> 95
   \<and> window_size defopts 95 = \<lfloor>win_nfloor_s defopts * of_int 95\<rfloor>
   \<and> skip_size defopts 95 = \<lfloor>win_skip_s defopts * of_int 95\<rfloor>
   \<and> window_size defopts 95 = round (win_nfloor_s defopts * of_int 95) - 1
   \<and> skip_size defopts 95 = round (win_skip_s defopts * of_int 95) - 1"
proof -
  have h: "0 \<le> win_nfloor_s defopts" "0 \<le> win_skip_s defopts" "(0::int) \<le> 95"
    by (simp_all add: defopts_def)
  have f: "\<not> frac (win_nfloor_s defopts * of_int 95) < 1/2"
    "\<not> frac (win_skip_s defopts * of_int 95) < 1/2"
    by (simp_all add: defopts_def frac_def)
  show ?thesis using h f C6_sizes_truncate[OF h] by simp
qed

subsection \<open>The gain is bounded\<close>

text \<open>
  Claim C9. For every sample above the floor and every draw \<open>r\<close> in \<open>[lo, hi]\<close>, the
  transition factor \<open>t\<close> lies in \<open>[0, 1]\<close> and the gain \<open>(1 - t) + t * r\<close> lies in
  \<open>[min(1, lo), max(1, hi)]\<close>.
\<close>

theorem C9_gain_bounded:
  assumes "\<bar>s\<bar> > nfloor_amp" "lo \<le> r" "r \<le> hi"
  shows "0 \<le> smooth_transition_factor cfg \<bar>s\<bar> nfloor_amp max_amp
       \<and> smooth_transition_factor cfg \<bar>s\<bar> nfloor_amp max_amp \<le> 1
       \<and> min 1 lo \<le> amplitude_adjustment (smooth_transition_factor cfg \<bar>s\<bar> nfloor_amp max_amp) r
       \<and> amplitude_adjustment (smooth_transition_factor cfg \<bar>s\<bar> nfloor_amp max_amp) r \<le> max 1 hi"
  using smooth_transition_factor_range[of cfg "\<bar>s\<bar>" nfloor_amp max_amp]
    amplitude_adjustment_bounds[OF smooth_transition_factor_range assms(2,3)]
  by blast

text \<open>
  The hypotheses of the theorem for C9 hold for a sample 0.5 above a floor of 0.4 and a
  draw of 1.1 from \<open>[0.8, 1.2]\<close>.
\<close>

theorem C9_gain_bounded_witness:
  "\<bar>0.5::real\<bar> > 0.4 \<and> (0.8::real) \<le> 1.1 \<and> (1.1::real) \<le> 1.2
   \<and> 0 \<le> smooth_transition_factor defopts \<bar>0.5\<bar> 0.4 0.9
   \<and> smooth_transition_factor defopts \<bar>0.5\<bar> 0.4 0.9 \<le> 1
   \<and> min 1 0.8 \<le> amplitude_adjustment (smooth_transition_factor defopts \<bar>0.5\<bar> 0.4 0.9) 1.1
   \<and> amplitude_adjustment (smooth_transition_factor defopts \<bar>0.5\<bar> 0.4 0.9) 1.1 \<le> max 1 1.2"
proof -
  have h: "\<bar>0.5::real\<bar> > 0.4" "(0.8::real) \<le> 1.1" "(1.1::real) \<le> 1.2" by simp_all
  show ?thesis using h C9_gain_bounded[OF h, of defopts "0.9"] by simp
qed

subsection \<open>A zero denominator in the transition factor\<close>

text \<open>
  Claim C3 says that an explicit guard sets \<open>t = 1\<close> when the denominator
  \<open>smooth_amp_frac * (max_amp - noise_floor_amp)\<close> is 0, so that no division by zero is
  performed and no NaN or Inf is produced. Line 68 has no guard and divides: with
  \<open>smooth_amp_frac = 0\<close>, a floor of 0, a maximum of 0.5 and the sample 0.5, the
  denominator is 0, the sample qualifies, and the quotient computed is \<open>+Inf\<close>.
\<close>

theorem C3_counterexample:
  "smooth_amp_frac (defopts\<lparr>smooth_amp_frac := 0\<rparr>) * (0.5 - 0) = 0
   \<and> \<bar>0.5::real\<bar> > 0
   \<and> transition_quotient (defopts\<lparr>smooth_amp_frac := 0\<rparr>) \<bar>0.5\<bar> 0 0.5 = PosInf"
  by (simp add: transition_quotient_def np_divide_def divisor_signbit_def frac_signbit_def
      diff_signbit_def defopts_def)

text \<open>
  Claim C3, as the code has it: there is no guard. When the denominator is 0 and the
  sample qualifies (\<open>max_amp\<close> and \<open>noise_floor_amp\<close> not both 0), the division is
  performed. Its result is \<open>+Inf\<close> when the zero denominator is \<open>+0.0\<close> and \<open>-Inf\<close>
  when it is \<open>-0.0\<close>, that is when exactly one of \<open>smooth_amp_frac\<close> and
  \<open>max_amp - noise_floor_amp\<close> has its sign bit set. The clamp
  \<^verbatim>\<open>max(0, min(1, ...))\<close> turns \<open>+Inf\<close> into \<open>t = 1\<close>, and the output sample is
  \<open>s * r\<close>, \<open>r\<close> the random draw; it turns \<open>-Inf\<close> into \<open>t = 0\<close>, and the output
  sample is \<open>s\<close> itself. The output sample is finite in both cases. The sample is at any
  index of the signal, and its draw is the one numbered by the qualifying samples
  before it.
\<close>

theorem C3_zero_denominator_divides:
  assumes "smooth_amp_frac cfg * (max_amp - nfloor_amp) = 0" "\<bar>s\<bar> > nfloor_amp"
    and "max_amp \<noteq> 0 \<or> nfloor_amp \<noteq> 0"
  shows "transition_quotient cfg \<bar>s\<bar> nfloor_amp max_amp
           = (if divisor_signbit cfg nfloor_amp max_amp then NegInf else PosInf)
       \<and> smooth_transition_factor cfg \<bar>s\<bar> nfloor_amp max_amp
           = (if divisor_signbit cfg nfloor_amp max_amp then 0 else 1)
       \<and> adjust_amplitude cfg rnd (pre @ s # post) nfloor_amp max_amp ! length pre
           = (if divisor_signbit cfg nfloor_amp max_amp then s
              else s * random_uniform (amplitude_adjust_range cfg)
                         (rnd (length (filter (\<lambda>x. \<bar>x\<bar> > nfloor_amp) pre))))"
proof -
  have n: "\<bar>s\<bar> - nfloor_amp \<noteq> 0" "\<not> \<bar>s\<bar> - nfloor_amp < 0" using assms(2) by simp_all
  have q: "transition_quotient cfg \<bar>s\<bar> nfloor_amp max_amp
           = (if divisor_signbit cfg nfloor_amp max_amp then NegInf else PosInf)"
    unfolding transition_quotient_def np_divide_def using assms(1) n by simp
  then have t: "smooth_transition_factor cfg \<bar>s\<bar> nfloor_amp max_amp
           = (if divisor_signbit cfg nfloor_amp max_amp then 0 else 1)"
    by (simp add: smooth_transition_factor_def)
  have o: "adjust_amplitude cfg rnd (pre @ s # post) nfloor_amp max_amp ! length pre
           = (if divisor_signbit cfg nfloor_amp max_amp then s
              else s * random_uniform (amplitude_adjust_range cfg)
                         (rnd (length (filter (\<lambda>x. \<bar>x\<bar> > nfloor_amp) pre))))"
    using assms(2) by (simp add: adjust_amplitude_at t amplitude_adjustment_def)
  show ?thesis using q t o by blast
qed

text \<open>
  The hypotheses of the theorem for C3 hold for \<open>smooth_amp_frac = 0\<close>, a floor of 0.1, a
  maximum of 0.7 and the sample 0.7 at index 2 of four: with \<open>+0.0\<close> the sample becomes
  \<open>0.7 * 0.9\<close>, with \<open>-0.0\<close> it stays 0.7.
\<close>

theorem C3_zero_denominator_divides_witness:
  "smooth_amp_frac (defopts\<lparr>smooth_amp_frac := 0\<rparr>) * (0.7 - 0.1) = 0
   \<and> \<bar>0.7::real\<bar> > 0.1 \<and> (0.7::real) \<noteq> 0
   \<and> transition_quotient (defopts\<lparr>smooth_amp_frac := 0\<rparr>) \<bar>0.7\<bar> 0.1 0.7 = PosInf
   \<and> smooth_transition_factor (defopts\<lparr>smooth_amp_frac := 0\<rparr>) \<bar>0.7\<bar> 0.1 0.7 = 1
   \<and> adjust_amplitude (defopts\<lparr>smooth_amp_frac := 0\<rparr>) (\<lambda>k. 0.25)
         ([0.3, 0.05] @ 0.7 # [0.2]) 0.1 0.7 ! length [0.3, 0.05::real] = 0.63
   \<and> transition_quotient (defopts\<lparr>smooth_amp_frac := 0, smooth_amp_frac_negzero := True\<rparr>)
         \<bar>0.7\<bar> 0.1 0.7 = NegInf
   \<and> smooth_transition_factor (defopts\<lparr>smooth_amp_frac := 0, smooth_amp_frac_negzero := True\<rparr>)
         \<bar>0.7\<bar> 0.1 0.7 = 0
   \<and> adjust_amplitude (defopts\<lparr>smooth_amp_frac := 0, smooth_amp_frac_negzero := True\<rparr>)
         (\<lambda>k. 0.25) ([0.3, 0.05] @ 0.7 # [0.2]) 0.1 0.7 ! length [0.3, 0.05::real] = 0.7"
proof -
  let ?pos = "defopts\<lparr>smooth_amp_frac := 0\<rparr>"
  let ?neg = "defopts\<lparr>smooth_amp_frac := 0, smooth_amp_frac_negzero := True\<rparr>"
  have h: "smooth_amp_frac ?pos * (0.7 - 0.1) = 0" "\<bar>0.7::real\<bar> > 0.1"
    "(0.7::real) \<noteq> 0 \<or> (0.1::real) \<noteq> 0"
    by simp_all
  have h': "smooth_amp_frac ?neg * (0.7 - 0.1) = 0" by simp
  have d: "\<not> divisor_signbit ?pos 0.1 0.7" "divisor_signbit ?neg 0.1 0.7"
    by (simp_all add: divisor_signbit_def frac_signbit_def diff_signbit_def defopts_def)
  have r: "random_uniform (amplitude_adjust_range ?pos) 0.25 = 0.9"
    by (simp add: random_uniform_def defopts_def)
  show ?thesis
    using h d r
      C3_zero_denominator_divides[OF h, of "\<lambda>k. 0.25" "[0.3, 0.05]" "[0.2]"]
      C3_zero_denominator_divides[OF h' h(2,3), of "\<lambda>k. 0.25" "[0.3, 0.05]" "[0.2]"]
    by simp
qed

subsection \<open>Samples at or below the floor\<close>

text \<open>
  Claim C7. Every sample with \<open>|s| \<le> noise_floor_amp\<close> is the same in the output as in
  the input, whatever the random source; the output has the length of the input.
\<close>

theorem C7_below_floor_unchanged:
  assumes "i < length data" "\<bar>data ! i\<bar> \<le> nfloor_amp"
  shows "adjust_amplitude cfg rnd data nfloor_amp max_amp ! i = data ! i
       \<and> length (adjust_amplitude cfg rnd data nfloor_amp max_amp) = length data"
  using assms by (simp add: adjust_amplitude_def adjust_loop_below_floor adjust_loop_length)

text \<open>
  The hypotheses of the theorem for C7 hold for the sample 0.05 at index 1 of a
  three-sample signal with floor 0.1.
\<close>

theorem C7_below_floor_unchanged_witness:
  "(1::nat) < length [0.5, 0.05, -0.7::real] \<and> \<bar>[0.5, 0.05, -0.7::real] ! 1\<bar> \<le> 0.1
   \<and> adjust_amplitude defopts (\<lambda>k. 0.25) [0.5, 0.05, -0.7] 0.1 0.7 ! 1 = 0.05
   \<and> length (adjust_amplitude defopts (\<lambda>k. 0.25) [0.5, 0.05, -0.7] 0.1 0.7) = 3"
proof -
  have h: "(1::nat) < length [0.5, 0.05, -0.7::real]" "\<bar>[0.5, 0.05, -0.7::real] ! 1\<bar> \<le> 0.1"
    by simp_all
  show ?thesis
    using h C7_below_floor_unchanged[OF h, of defopts "\<lambda>k. 0.25" "0.7"] by simp
qed

subsection \<open>The silent signal\<close>

text \<open>
  Claim C10. For a signal of \<open>n > 0\<close> zeros and positive window and skip sizes, the
  estimator returns \<open>max_amp = 0\<close> and \<open>noise_floor_amp = 0\<close>, and the transform
  returns the signal unchanged. No sample qualifies, so the branch with the division is
  never entered: the loop makes no random draw. The estimator divides nowhere.
\<close>

theorem C10_silent_signal:
  assumes "0 < n" "0 < window_size cfg sample_rate" "0 < skip_size cfg sample_rate"
  shows "calculate_noise_floor cfg (replicate n 0) sample_rate = Inr (0, 0)
       \<and> adjust_loop cfg rnd 0 0 (replicate n 0) 0 = (replicate n 0, 0)
       \<and> adjust_amplitude cfg rnd (replicate n 0) 0 0 = replicate n 0"
proof -
  have ne: "replicate n (0::real) \<noteq> []" using assms(1) by simp
  obtain max_amp where
    c: "calculate_noise_floor cfg (replicate n 0) sample_rate = Inr (0, max_amp)" and
    m: "np_max_abs (replicate n 0) = Inr max_amp"
    using calculate_noise_floor_total[OF ne assms(2,3)] by blast
  have "max_amp = 0" using m np_max_abs_replicate[OF assms(1), of 0] by simp
  moreover have l: "adjust_loop cfg rnd 0 0 (replicate n 0) 0 = (replicate n 0, 0)"
    by (rule adjust_loop_none_qualifies) simp
  ultimately show ?thesis using c by (simp add: adjust_amplitude_def)
qed

text \<open>The hypotheses of the theorem for C10 hold for 300 zeros at 1000 Hz.\<close>

theorem C10_silent_signal_witness:
  "(0::nat) < 300 \<and> 0 < window_size defopts 1000 \<and> 0 < skip_size defopts 1000
   \<and> calculate_noise_floor defopts (replicate 300 0) 1000 = Inr (0, 0)
   \<and> adjust_loop defopts (\<lambda>k. 0.5) 0 0 (replicate 300 0) 0 = (replicate 300 0, 0)
   \<and> adjust_amplitude defopts (\<lambda>k. 0.5) (replicate 300 0) 0 0 = replicate 300 0"
proof -
  have h: "(0::nat) < 300" "0 < window_size defopts 1000" "0 < skip_size defopts 1000"
    by (simp_all add: window_size_def skip_size_def defopts_def py_int_def)
  show ?thesis using h C10_silent_signal[OF h, of "\<lambda>k. 0.5"] by simp
qed

end
